theory Spec2Isabelle
  imports Main
begin

section \<open>Conference Hall: user registration\<close>

text \<open>
  Source: \<^verbatim>\<open>app/.server/user-registration/user-account.ts\<close>.
  The relational store is modelled by the two tables \<^verbatim>\<open>UserAccount.register\<close> touches.
  Rows are kept in insertion order. An optional property of a TypeScript object
  (\<^verbatim>\<open>undefined\<close> when absent) is an \<open>option\<close>.
\<close>

record user =
  user_id :: string
  user_name :: string
  user_email :: string
  user_emailVerified :: "bool option"
  user_picture :: "string option"

record authenticationMethod =
  auth_uid :: string
  auth_name :: string
  auth_email :: string
  auth_picture :: "string option"
  auth_provider :: string
  auth_userId :: string

record db =
  users :: "user list"
  authenticationMethods :: "authenticationMethod list"

text \<open>
  \<^verbatim>\<open>UserAccountCreateInput\<close>. The type declares \<^verbatim>\<open>name\<close> and \<^verbatim>\<open>provider\<close> as required,
  but \<^verbatim>\<open>register\<close> destructures both with a default, so they are read as possibly
  \<^verbatim>\<open>undefined\<close> here.
\<close>

record UserAccountCreateInput =
  in_uid :: string
  in_name :: "string option"
  in_email :: "string option"
  in_emailVerified :: "bool option"
  in_picture :: "string option"
  in_provider :: "string option"

text \<open>
  \<^verbatim>\<open>db.authenticationMethod.findUnique({ where: { uid }, include: { user: true } })\<close>:
  the row with the given uid, if any.
\<close>

definition findUnique_authenticationMethod :: "db \<Rightarrow> string \<Rightarrow> authenticationMethod option" where
  "findUnique_authenticationMethod d uid = find (\<lambda>a. auth_uid a = uid) (authenticationMethods d)"

text \<open>A destructuring default \<^verbatim>\<open>x = dflt\<close> applies when the property is \<^verbatim>\<open>undefined\<close>.\<close>

definition orDefault :: "'a option \<Rightarrow> 'a \<Rightarrow> 'a" where
  "orDefault v dflt = (case v of None \<Rightarrow> dflt | Some x \<Rightarrow> x)"

text \<open>
  \<^verbatim>\<open>UserAccount.register(data)\<close>. The included \<^verbatim>\<open>authentication.user\<close> is the row the
  foreign key \<^verbatim>\<open>userId\<close> points to, so \<^verbatim>\<open>authentication.user.id\<close> is \<open>auth_userId\<close>.
  \<open>newId\<close> is the identifier the database generates for the user row of the nested
  \<^verbatim>\<open>user: { create: ... }\<close>; the created authentication method refers to it.
\<close>

definition register :: "string \<Rightarrow> UserAccountCreateInput \<Rightarrow> db \<Rightarrow> string \<times> db" where
  "register newId data d =
     (case findUnique_authenticationMethod d (in_uid data) of
        Some authentication \<Rightarrow> (auth_userId authentication, d)
      | None \<Rightarrow>
          (let uid = in_uid data;
               name = orDefault (in_name data) ''(No name)'';
               email = orDefault (in_email data) (in_uid data @ ''@example.com'');
               emailVerified = in_emailVerified data;
               picture = in_picture data;
               provider = orDefault (in_provider data) ''unknown'';
               newUser = \<lparr>user_id = newId, user_name = name, user_email = email,
                           user_emailVerified = emailVerified, user_picture = picture\<rparr>;
               newAuthentication = \<lparr>auth_uid = uid, auth_name = name, auth_email = email,
                           auth_picture = picture, auth_provider = provider,
                           auth_userId = user_id newUser\<rparr>
           in (auth_userId newAuthentication,
               d\<lparr>users := users d @ [newUser],
                  authenticationMethods := authenticationMethods d @ [newAuthentication]\<rparr>)))"

text \<open>
  Referential integrity of the store: every authentication method belongs to a user row.
\<close>

definition integrity :: "db \<Rightarrow> bool" where
  "integrity d = list_all (\<lambda>a. list_ex (\<lambda>u. user_id u = auth_userId a) (users d)) (authenticationMethods d)"

section \<open>Thrown values and JavaScript truthiness\<close>

text \<open>
  A route handler either returns or throws. What is thrown is an error carrying a message
  or, with \<^verbatim>\<open>throw redirect(...)\<close>, a redirect response: its location and the cookies it sets.
\<close>

datatype setCookie = DestroySessionCookie

datatype response = Redirect string "setCookie list"

datatype thrown = ThrownError string | ThrownResponse response

text \<open>\<^verbatim>\<open>!v\<close> on a value that is a string, \<^verbatim>\<open>null\<close> or \<^verbatim>\<open>undefined\<close>.\<close>

definition falsy :: "string option \<Rightarrow> bool" where
  "falsy v = (case v of None \<Rightarrow> True | Some s \<Rightarrow> s = [])"

section \<open>Password reset email\<close>

text \<open>
  Source: \<^verbatim>\<open>UserAccount.sendResetPasswordEmail\<close> in
  \<^verbatim>\<open>app/.server/user-registration/user-account.ts\<close>.

  A parsed \<^verbatim>\<open>URL\<close> object is the text before the query and the list of query pairs.
  \<^verbatim>\<open>searchParams.get\<close> reads the first pair of a name; \<^verbatim>\<open>searchParams.set\<close> overwrites the
  first pair of the name and drops the others, or appends a pair when there is none.
\<close>

record url =
  url_href :: string
  url_searchParams :: "(string \<times> string) list"

definition searchParams_get :: "url \<Rightarrow> string \<Rightarrow> string option" where
  "searchParams_get u k = map_of (url_searchParams u) k"

fun set_pair :: "string \<Rightarrow> string \<Rightarrow> (string \<times> string) list \<Rightarrow> (string \<times> string) list" where
  "set_pair k v [] = [(k, v)]"
| "set_pair k v (p # ps) =
     (if fst p = k then (k, v) # filter (\<lambda>q. fst q \<noteq> k) ps else p # set_pair k v ps)"

definition searchParams_set :: "url \<Rightarrow> string \<Rightarrow> string \<Rightarrow> url" where
  "searchParams_set u k v = u\<lparr>url_searchParams := set_pair k v (url_searchParams u)\<rparr>"

text \<open>
  What the function calls but this file does not define:
  \<^item> \<open>generatePasswordResetLink\<close>: Firebase's link generator, which rejects for an unknown
    account;
  \<^item> \<open>newURL\<close>: the \<^verbatim>\<open>URL\<close> constructor, \<open>None\<close> when it throws on a string that is no URL;
  \<^item> \<open>appUrl\<close>: the configured base address of the application;
  \<^item> \<open>resetPasswordTemplate\<close>: the email template's send function of
    \<^verbatim>\<open>emails/templates/auth/reset-password.tsx\<close>, \<open>Some e\<close> when the call throws \<open>e\<close>.
\<close>

record account_env =
  generatePasswordResetLink :: "string \<Rightarrow> thrown + string"
  newURL :: "string \<Rightarrow> url option"
  appUrl :: string
  resetPasswordTemplate :: "string \<Rightarrow> url \<Rightarrow> thrown option"

text \<open>
  The observable effects: the calls made to the email template, each with the address and
  the URL object whose \<^verbatim>\<open>toString()\<close> is passed as \<^verbatim>\<open>passwordResetUrl\<close>, and the lines
  written with \<^verbatim>\<open>console.error\<close> (the \<^verbatim>\<open>message\<close> of what was caught, if it has one).
\<close>

record account_effects =
  emails :: "(string \<times> url) list"
  console_errors :: "string option list"

definition message :: "thrown \<Rightarrow> string option" where
  "message e = (case e of ThrownError m \<Rightarrow> Some m | ThrownResponse _ \<Rightarrow> None)"

text \<open>The body of the \<^verbatim>\<open>try\<close> block: how it completes and the template calls it made.\<close>

definition sendResetPasswordEmail_try ::
  "account_env \<Rightarrow> string \<Rightarrow> (thrown + unit) \<times> (string \<times> url) list" where
  "sendResetPasswordEmail_try env email =
     (case generatePasswordResetLink env email of
        Inl e \<Rightarrow> (Inl e, [])
      | Inr firebaseResetLink \<Rightarrow>
          (case newURL env firebaseResetLink of
             None \<Rightarrow> (Inl (ThrownError ''Invalid URL''), [])
           | Some firebaseResetUrl \<Rightarrow>
               (case searchParams_get firebaseResetUrl ''oobCode'' of
                  None \<Rightarrow> (Inr (), [])
                | Some oobCode \<Rightarrow>
                    if oobCode = [] then (Inr (), [])
                    else
                      (case newURL env (appUrl env @ ''/auth/reset-password'') of
                         None \<Rightarrow> (Inl (ThrownError ''Invalid URL''), [])
                       | Some u0 \<Rightarrow>
                           (let u1 = searchParams_set u0 ''oobCode'' oobCode;
                                passwordResetUrl = searchParams_set u1 ''email'' email
                            in (case resetPasswordTemplate env email passwordResetUrl of
                                  Some e \<Rightarrow> Inl e
                                | None \<Rightarrow> Inr (),
                                [(email, passwordResetUrl)]))))))"

text \<open>The whole function: the \<^verbatim>\<open>catch\<close> clause logs and returns.\<close>

definition sendResetPasswordEmail ::
  "account_env \<Rightarrow> string \<Rightarrow> (thrown + unit) \<times> account_effects" where
  "sendResetPasswordEmail env email =
     (case sendResetPasswordEmail_try env email of
        (Inl e, sent) \<Rightarrow> (Inr (), \<lparr>emails = sent, console_errors = [message e]\<rparr>)
      | (Inr r, sent) \<Rightarrow> (Inr r, \<lparr>emails = sent, console_errors = []\<rparr>))"

text \<open>
  The generated link carries an oobCode when it parses as a URL whose first \<^verbatim>\<open>oobCode\<close>
  query pair is a non-empty string.
\<close>

definition link_oobCode :: "account_env \<Rightarrow> string \<Rightarrow> string option" where
  "link_oobCode env link =
     (case newURL env link of
        None \<Rightarrow> None
      | Some u \<Rightarrow> (case searchParams_get u ''oobCode'' of
                     None \<Rightarrow> None
                   | Some c \<Rightarrow> if c = [] then None else Some c))"

text \<open>
  The environments of the test-suite: Firebase answers with a link that carries
  \<^verbatim>\<open>oobCode=my-code\<close>, or rejects because the account does not exist. The application runs
  at \<^verbatim>\<open>http://127.0.0.1:3000\<close>.
\<close>

definition test_newURL :: "string \<Rightarrow> url option" where
  "test_newURL s =
     (if s = ''https://firebase.app/auth?mode=resetPassword&oobCode=my-code''
      then Some \<lparr>url_href = ''https://firebase.app/auth'',
                 url_searchParams = [(''mode'', ''resetPassword''), (''oobCode'', ''my-code'')]\<rparr>
      else if s = ''http://127.0.0.1:3000/auth/reset-password''
      then Some \<lparr>url_href = ''http://127.0.0.1:3000/auth/reset-password'', url_searchParams = []\<rparr>
      else None)"

definition test_env_link :: account_env where
  "test_env_link =
     \<lparr>generatePasswordResetLink =
        (\<lambda>_. Inr ''https://firebase.app/auth?mode=resetPassword&oobCode=my-code''),
      newURL = test_newURL,
      appUrl = ''http://127.0.0.1:3000'',
      resetPasswordTemplate = (\<lambda>_ _. None)\<rparr>"

definition test_env_rejected :: account_env where
  "test_env_rejected =
     \<lparr>generatePasswordResetLink = (\<lambda>_. Inl (ThrownError ''User account does not exist'')),
      newURL = test_newURL,
      appUrl = ''http://127.0.0.1:3000'',
      resetPasswordTemplate = (\<lambda>_ _. None)\<rparr>"

section \<open>Session cookie\<close>

text \<open>
  Source: the session module (\<^verbatim>\<open>unnamed/part_002\<close>). A request is read through the
  session that \<^verbatim>\<open>sessionStorage.getSession\<close> decodes from its cookie header; a key that
  was never set reads as \<^verbatim>\<open>undefined\<close>. The body of a request is the form it submits:
  the entry of each name, a string or an uploaded file with its name and its size in bytes
  (forms that repeat a name are left out).
\<close>

datatype formValue = Text string | Upload string nat

type_synonym formData = "string \<rightharpoonup> formValue"

record session =
  session_jwt :: "string option"
  session_uid :: "string option"
  session_userId :: "string option"

record request =
  request_session :: session
  request_pathname :: string
  request_formData :: formData

record decodedIdToken =
  token_uid :: string

definition getSession :: "request \<Rightarrow> session" where
  "getSession request = request_session request"

text \<open>
  \<^verbatim>\<open>destroySession\<close> never returns: it throws a redirect to \<^verbatim>\<open>/\<close> whose
  \<^verbatim>\<open>Set-Cookie\<close> header is the one \<^verbatim>\<open>sessionStorage.destroySession\<close> produces.
\<close>

definition destroySession :: "request \<Rightarrow> thrown + unit" where
  "destroySession request =
     (let session = getSession request
      in Inl (ThrownResponse (Redirect ''/'' [DestroySessionCookie])))"

text \<open>
  The \<^verbatim>\<open>try\<close> block of \<^verbatim>\<open>getSessionUserId\<close>, with \<open>verifySessionCookie\<close> standing for
  Firebase's \<^verbatim>\<open>serverAuth.verifySessionCookie(jwt, true)\<close>. The block throws (\<open>Inl\<close>),
  returns a value (\<open>Inr (Some v)\<close>) or runs to its end (\<open>Inr None\<close>).
\<close>

definition getSessionUserId_try ::
  "(string \<Rightarrow> thrown + decodedIdToken) \<Rightarrow> request \<Rightarrow> string \<Rightarrow> string \<Rightarrow> string
     \<Rightarrow> thrown + string option" where
  "getSessionUserId_try verifySessionCookie request jwt uid userId =
     (case verifySessionCookie jwt of
        Inl e \<Rightarrow> Inl e
      | Inr token \<Rightarrow>
          if uid = token_uid token then Inr (Some userId)
          else (case destroySession request of Inl e \<Rightarrow> Inl e | Inr _ \<Rightarrow> Inr None))"

text \<open>
  \<^verbatim>\<open>getSessionUserId\<close>: \<open>Inr (Some userId)\<close> and \<open>Inr None\<close> are the returned
  \<^verbatim>\<open>string | null\<close>, \<open>Inl\<close> is what the call throws.
\<close>

definition getSessionUserId ::
  "(string \<Rightarrow> thrown + decodedIdToken) \<Rightarrow> request \<Rightarrow> thrown + string option" where
  "getSessionUserId verifySessionCookie request =
     (let session = getSession request;
          jwt = session_jwt session;
          uid = session_uid session;
          userId = session_userId session
      in if falsy jwt \<or> falsy uid \<or> falsy userId then Inr None
         else
           (case getSessionUserId_try verifySessionCookie request
                   (the jwt) (the uid) (the userId) of
              Inl caught \<Rightarrow>
                (case destroySession request of Inl e \<Rightarrow> Inl e | Inr _ \<Rightarrow> Inr None)
            | Inr (Some v) \<Rightarrow> Inr (Some v)
            | Inr None \<Rightarrow> Inr None))"

text \<open>
  A request whose session holds all three keys, a verifier that accepts its jwt for the
  same uid, and one that rejects every cookie.
\<close>

definition test_request :: request where
  "test_request =
     \<lparr>request_session = \<lparr>session_jwt = Some ''jwt-1'', session_uid = Some ''uid-1'',
                          session_userId = Some ''user-1''\<rparr>,
      request_pathname = ''/speaker'', request_formData = Map.empty\<rparr>"

definition test_verify_ok :: "string \<Rightarrow> thrown + decodedIdToken" where
  "test_verify_ok jwt =
     (if jwt = ''jwt-1'' then Inr \<lparr>token_uid = ''uid-1''\<rparr>
      else Inl (ThrownError ''invalid session cookie''))"

definition test_verify_revoked :: "string \<Rightarrow> thrown + decodedIdToken" where
  "test_verify_revoked jwt = Inl (ThrownError ''session cookie revoked'')"

section \<open>Event integrations settings: the route action\<close>


















section \<open>Speaker proposals\<close>

text \<open>
  The class \<^verbatim>\<open>SpeakerProposal\<close> (\<^verbatim>\<open>speaker-proposal.server.ts\<close>) is not among the source
  files; its test-suite (\<^verbatim>\<open>unnamed/part_003\<close>, lines 16 to 319) is. The operations below
  are modelled from the spec, which describes a domain service as a short sequence of
  authorization checks followed by a handful of database reads and writes, and the proposal
  transitions as guarded field updates on rows already retrieved by primary key. The rows,
  the errors and the fields are the ones the test-suite names.
\<close>

datatype deliberationStatus = PENDING | ACCEPTED | REJECTED

datatype publicationStatus = NOT_PUBLISHED | PUBLISHED

datatype participation = CONFIRMED | DECLINED

datatype talkLevel = BEGINNER | INTERMEDIATE | ADVANCED

record proposal =
  proposal_id :: string
  proposal_talkId :: string
  proposal_eventId :: string
  proposal_speakers :: "string list"
  proposal_title :: string
  proposal_abstract :: string
  proposal_level :: "talkLevel option"
  proposal_languages :: "string list"
  proposal_references :: string
  proposal_formats :: "string list"
  proposal_categories :: "string list"
  proposal_deliberationStatus :: deliberationStatus
  proposal_publicationStatus :: publicationStatus
  proposal_confirmationStatus :: "participation option"

record talk =
  talk_id :: string
  talk_title :: string
  talk_abstract :: string
  talk_level :: "talkLevel option"
  talk_languages :: "string list"
  talk_references :: string

record cfpEvent =
  event_id :: string
  event_isCfpOpen :: bool

record cfp_db =
  proposals :: "proposal list"
  talks :: "talk list"
  events :: "cfpEvent list"

text \<open>The argument of \<^verbatim>\<open>update\<close>, as the test-suite passes it.\<close>

record proposalData =
  data_title :: string
  data_abstract :: string
  data_level :: "talkLevel option"
  data_languages :: "string list"
  data_references :: string
  data_formats :: "string list"
  data_categories :: "string list"

datatype proposalError = ProposalNotFoundError | CfpNotOpenError

text \<open>
  Modelled from the spec: the authorization check of \<^verbatim>\<open>SpeakerProposal.for(speakerId,
  proposalId)\<close>, whose code is missing. The proposal is retrieved by its id, for the speaker:
  a proposal of which the caller is not a speaker is not found.
\<close>

definition findProposal :: "cfp_db \<Rightarrow> string \<Rightarrow> string \<Rightarrow> proposal option" where
  "findProposal d speakerId proposalId =
     find (\<lambda>p. proposal_id p = proposalId \<and> speakerId \<in> set (proposal_speakers p)) (proposals d)"

text \<open>
  Modelled from the spec: whether the call for papers of an event is open, a property of
  the event row whose computation (\<^verbatim>\<open>isCfpOpen\<close>) is missing.
\<close>

definition isCfpOpen :: "cfp_db \<Rightarrow> string \<Rightarrow> bool" where
  "isCfpOpen d eventId = list_ex (\<lambda>e. event_id e = eventId \<and> event_isCfpOpen e) (events d)"

text \<open>
  Modelled from the spec: \<^verbatim>\<open>SpeakerProposal.get\<close>, whose code is missing. The check, then
  the read.
\<close>

definition SpeakerProposal_get :: "cfp_db \<Rightarrow> string \<Rightarrow> string \<Rightarrow> proposalError + proposal" where
  "SpeakerProposal_get d speakerId proposalId =
     (case findProposal d speakerId proposalId of
        None \<Rightarrow> Inl ProposalNotFoundError
      | Some p \<Rightarrow> Inr p)"

text \<open>
  Modelled from the spec: the fields \<^verbatim>\<open>update\<close> writes, those of its argument, on the
  proposal and on the talk (which has no formats and no categories).
\<close>

definition write_proposal :: "proposalData \<Rightarrow> proposal \<Rightarrow> proposal" where
  "write_proposal data p =
     p\<lparr>proposal_title := data_title data,
       proposal_abstract := data_abstract data,
       proposal_level := data_level data,
       proposal_languages := data_languages data,
       proposal_references := data_references data,
       proposal_formats := data_formats data,
       proposal_categories := data_categories data\<rparr>"

definition write_talk :: "proposalData \<Rightarrow> talk \<Rightarrow> talk" where
  "write_talk data t =
     t\<lparr>talk_title := data_title data,
       talk_abstract := data_abstract data,
       talk_level := data_level data,
       talk_languages := data_languages data,
       talk_references := data_references data\<rparr>"

text \<open>
  Modelled from the spec: \<^verbatim>\<open>SpeakerProposal.update\<close>, whose code is missing. The two checks
  (the proposal is the speaker's, the call for papers of its event is open), then the writes
  to the proposal and to the related talk. The result is the error thrown, if any, and the
  store after the call.
\<close>

definition SpeakerProposal_update ::
  "cfp_db \<Rightarrow> string \<Rightarrow> string \<Rightarrow> proposalData \<Rightarrow> (proposalError + unit) \<times> cfp_db" where
  "SpeakerProposal_update d speakerId proposalId data =
     (case findProposal d speakerId proposalId of
        None \<Rightarrow> (Inl ProposalNotFoundError, d)
      | Some p \<Rightarrow>
          if \<not> isCfpOpen d (proposal_eventId p) then (Inl CfpNotOpenError, d)
          else (Inr (),
                d\<lparr>proposals :=
                     map (\<lambda>q. if proposal_id q = proposalId then write_proposal data q else q)
                       (proposals d),
                   talks :=
                     map (\<lambda>t. if talk_id t = proposal_talkId p then write_talk data t else t)
                       (talks d)\<rparr>))"

text \<open>
  Modelled from the spec: \<^verbatim>\<open>SpeakerProposal.removeCoSpeaker\<close>, whose code is missing. The
  check, then the co-speaker is taken off the proposal.
\<close>

definition SpeakerProposal_removeCoSpeaker ::
  "cfp_db \<Rightarrow> string \<Rightarrow> string \<Rightarrow> string \<Rightarrow> (proposalError + unit) \<times> cfp_db" where
  "SpeakerProposal_removeCoSpeaker d speakerId proposalId coSpeakerId =
     (case findProposal d speakerId proposalId of
        None \<Rightarrow> (Inl ProposalNotFoundError, d)
      | Some p \<Rightarrow>
          (Inr (),
           d\<lparr>proposals :=
                map (\<lambda>q. if proposal_id q = proposalId
                          then q\<lparr>proposal_speakers := removeAll coSpeakerId (proposal_speakers q)\<rparr>
                          else q)
                  (proposals d)\<rparr>))"

text \<open>
  Modelled from the spec: \<^verbatim>\<open>SpeakerProposal.confirm\<close>, whose code is missing. The check,
  then the guarded update: the participation is recorded only for a proposal that is
  accepted and whose result is published (the test-suite's \<^verbatim>\<open>accepted-published\<close>). The
  notification sent to the organizers is left out.
\<close>

definition SpeakerProposal_confirm ::
  "cfp_db \<Rightarrow> string \<Rightarrow> string \<Rightarrow> participation \<Rightarrow> (proposalError + unit) \<times> cfp_db" where
  "SpeakerProposal_confirm d speakerId proposalId participation =
     (case findProposal d speakerId proposalId of
        None \<Rightarrow> (Inl ProposalNotFoundError, d)
      | Some p \<Rightarrow>
          if proposal_deliberationStatus p = ACCEPTED \<and> proposal_publicationStatus p = PUBLISHED
          then (Inr (),
                d\<lparr>proposals :=
                     map (\<lambda>q. if proposal_id q = proposalId
                               then q\<lparr>proposal_confirmationStatus := Some participation\<rparr>
                               else q)
                       (proposals d)\<rparr>)
          else (Inr (), d))"

text \<open>
  The store of the test-suite: an open event with a proposal of one speaker, accepted and
  published, and its talk.
\<close>

definition test_proposal :: proposal where
  "test_proposal =
     \<lparr>proposal_id = ''p1'', proposal_talkId = ''t1'', proposal_eventId = ''e1'',
      proposal_speakers = [''speaker-1''],
      proposal_title = ''Title'', proposal_abstract = ''Abstract'', proposal_level = None,
      proposal_languages = [''en''], proposal_references = '''',
      proposal_formats = [], proposal_categories = [],
      proposal_deliberationStatus = ACCEPTED, proposal_publicationStatus = PUBLISHED,
      proposal_confirmationStatus = None\<rparr>"

definition test_talk :: talk where
  "test_talk =
     \<lparr>talk_id = ''t1'', talk_title = ''Title'', talk_abstract = ''Abstract'', talk_level = None,
      talk_languages = [''en''], talk_references = ''''\<rparr>"

definition test_cfp_db :: cfp_db where
  "test_cfp_db =
     \<lparr>proposals = [test_proposal], talks = [test_talk],
      events = [\<lparr>event_id = ''e1'', event_isCfpOpen = True\<rparr>]\<rparr>"

definition test_proposalData :: proposalData where
  "test_proposalData =
     \<lparr>data_title = ''Title changed'', data_abstract = ''Abstract changes'',
      data_level = Some INTERMEDIATE, data_languages = [''be''],
      data_references = ''Reference changed'', data_formats = [''f1''],
      data_categories = [''c1'']\<rparr>"

section \<open>Team members\<close>

text \<open>
  The class \<^verbatim>\<open>TeamMembers\<close> (\<^verbatim>\<open>team-members.server.ts\<close>) is not among the source files; its
  test-suite (\<^verbatim>\<open>unnamed/part_003\<close>, lines 320 to 465) is. A membership row gives the role of
  a user in a team; roles are \<^verbatim>\<open>OWNER\<close>, \<^verbatim>\<open>MEMBER\<close> and \<^verbatim>\<open>REVIEWER\<close>.
\<close>

datatype teamRole = OWNER | MEMBER | REVIEWER

record teamMember =
  member_team :: string
  member_userId :: string
  member_role :: teamRole

datatype teamError = ForbiddenOperationError

text \<open>
  Modelled from the spec: the membership row of a user in a team.
\<close>

definition isMember :: "string \<Rightarrow> string \<Rightarrow> teamMember \<Rightarrow> bool" where
  "isMember team userId m = (member_team m = team \<and> member_userId m = userId)"

text \<open>
  Modelled from the spec: the role of the caller of \<^verbatim>\<open>TeamMembers.for(userId, team)\<close> in
  the team, on which the authorization checks rest; the code of the check is missing.
\<close>

definition roleOf :: "teamMember list \<Rightarrow> string \<Rightarrow> string \<Rightarrow> teamRole option" where
  "roleOf ms userId team = map_option member_role (find (isMember team userId) ms)"

text \<open>
  Modelled from the spec: \<^verbatim>\<open>TeamMembers.list\<close>, whose code is missing. The check (the
  caller owns the team), then the read of the team's members, filtered by role when a role
  is asked for. The filter on names, the order and the pages are left out.
\<close>

definition TeamMembers_list ::
  "teamMember list \<Rightarrow> string \<Rightarrow> string \<Rightarrow> teamRole option \<Rightarrow> teamError + teamMember list" where
  "TeamMembers_list ms userId team roleFilter =
     (if roleOf ms userId team \<noteq> Some OWNER then Inl ForbiddenOperationError
      else Inr (filter (\<lambda>m. member_team m = team \<and>
                           (case roleFilter of None \<Rightarrow> True | Some r \<Rightarrow> member_role m = r)) ms))"

text \<open>
  Modelled from the spec: \<^verbatim>\<open>TeamMembers.leave\<close>, whose code is missing. The check (the
  caller belongs to the team and does not own it), then the caller's membership is deleted.
\<close>

definition TeamMembers_leave ::
  "teamMember list \<Rightarrow> string \<Rightarrow> string \<Rightarrow> (teamError + unit) \<times> teamMember list" where
  "TeamMembers_leave ms userId team =
     (case roleOf ms userId team of
        None \<Rightarrow> (Inl ForbiddenOperationError, ms)
      | Some r \<Rightarrow>
          if r = OWNER then (Inl ForbiddenOperationError, ms)
          else (Inr (), filter (\<lambda>m. \<not> isMember team userId m) ms))"

text \<open>
  Modelled from the spec: \<^verbatim>\<open>TeamMembers.remove\<close>, whose code is missing. The checks (the
  caller owns the team and does not target themselves), then the member's membership is
  deleted.
\<close>

definition TeamMembers_remove ::
  "teamMember list \<Rightarrow> string \<Rightarrow> string \<Rightarrow> string \<Rightarrow> (teamError + unit) \<times> teamMember list" where
  "TeamMembers_remove ms userId team memberId =
     (if roleOf ms userId team \<noteq> Some OWNER then (Inl ForbiddenOperationError, ms)
      else if memberId = userId then (Inl ForbiddenOperationError, ms)
      else (Inr (), filter (\<lambda>m. \<not> isMember team memberId m) ms))"

text \<open>
  Modelled from the spec: \<^verbatim>\<open>TeamMembers.changeRole\<close>, whose code is missing. The same
  checks, then the member's role is written.
\<close>

definition TeamMembers_changeRole ::
  "teamMember list \<Rightarrow> string \<Rightarrow> string \<Rightarrow> string \<Rightarrow> teamRole
     \<Rightarrow> (teamError + unit) \<times> teamMember list" where
  "TeamMembers_changeRole ms userId team memberId role =
     (if roleOf ms userId team \<noteq> Some OWNER then (Inl ForbiddenOperationError, ms)
      else if memberId = userId then (Inl ForbiddenOperationError, ms)
      else (Inr (), map (\<lambda>m. if isMember team memberId m then m\<lparr>member_role := role\<rparr> else m) ms))"

text \<open>The team of the test-suite: an owner, a member and a reviewer.\<close>

definition test_team :: "teamMember list" where
  "test_team =
     [\<lparr>member_team = ''my-team'', member_userId = ''1'', member_role = OWNER\<rparr>,
      \<lparr>member_team = ''my-team'', member_userId = ''2'', member_role = MEMBER\<rparr>,
      \<lparr>member_team = ''my-team'', member_userId = ''3'', member_role = REVIEWER\<rparr>]"

section \<open>Properties of registration\<close>

lemma find_append_None:
  "find P xs = None \<Longrightarrow> find P (xs @ ys) = find P ys"
  by (induction xs) (auto split: if_splits)

lemma find_Some_mem:
  "find P xs = Some x \<Longrightarrow> x \<in> set xs \<and> P x"
  by (induction xs) (auto split: if_splits)

lemma integrity_register:
  "integrity d \<Longrightarrow> integrity (snd (register newId data d))"
  by (auto simp: integrity_def register_def Let_def list_all_iff list_ex_iff
           split: option.splits)

text \<open>
  Claim C3. When an authentication method with the given uid exists, \<open>register\<close> returns
  the id of the user it belongs to (a user of the store) and changes nothing. Otherwise it
  appends exactly one user and one authentication method, the email defaulting to
  \<open>uid@example.com\<close> and the provider to \<open>unknown\<close> when absent, and returns the id of
  the user it created.
\<close>

theorem register_existing_or_created:
  assumes "integrity d"
  shows "(\<forall>a. findUnique_authenticationMethod d (in_uid data) = Some a \<longrightarrow>
            register newId data d = (auth_userId a, d) \<and>
            auth_userId a \<in> user_id ` set (users d))
       \<and> (findUnique_authenticationMethod d (in_uid data) = None \<longrightarrow>
            (\<exists>u a. register newId data d =
                     (user_id u, d\<lparr>users := users d @ [u],
                                   authenticationMethods := authenticationMethods d @ [a]\<rparr>)
                 \<and> user_id u = newId
                 \<and> auth_userId a = user_id u
                 \<and> auth_uid a = in_uid data
                 \<and> user_email u = (case in_email data of None \<Rightarrow> in_uid data @ ''@example.com''
                                                     | Some e \<Rightarrow> e)
                 \<and> auth_email a = user_email u
                 \<and> auth_provider a = (case in_provider data of None \<Rightarrow> ''unknown''
                                                            | Some p \<Rightarrow> p)))"
proof -
  have existing: "register newId data d = (auth_userId a, d) \<and>
                  auth_userId a \<in> user_id ` set (users d)"
    if f: "findUnique_authenticationMethod d (in_uid data) = Some a" for a
  proof -
    from f have "a \<in> set (authenticationMethods d)"
      unfolding findUnique_authenticationMethod_def by (auto dest: find_Some_mem)
    with assms have "\<exists>u \<in> set (users d). user_id u = auth_userId a"
      by (auto simp: integrity_def list_all_iff list_ex_iff)
    then have "auth_userId a \<in> user_id ` set (users d)" by force
    with f show ?thesis by (simp add: register_def)
  qed
  have created: "\<exists>u a. register newId data d =
                     (user_id u, d\<lparr>users := users d @ [u],
                                   authenticationMethods := authenticationMethods d @ [a]\<rparr>)
                 \<and> user_id u = newId
                 \<and> auth_userId a = user_id u
                 \<and> auth_uid a = in_uid data
                 \<and> user_email u = (case in_email data of None \<Rightarrow> in_uid data @ ''@example.com''
                                                     | Some e \<Rightarrow> e)
                 \<and> auth_email a = user_email u
                 \<and> auth_provider a = (case in_provider data of None \<Rightarrow> ''unknown''
                                                            | Some p \<Rightarrow> p)"
    if f: "findUnique_authenticationMethod d (in_uid data) = None"
  proof -
    let ?name = "orDefault (in_name data) ''(No name)''"
    let ?email = "orDefault (in_email data) (in_uid data @ ''@example.com'')"
    let ?u = "\<lparr>user_id = newId, user_name = ?name, user_email = ?email,
               user_emailVerified = in_emailVerified data, user_picture = in_picture data\<rparr>"
    let ?a = "\<lparr>auth_uid = in_uid data, auth_name = ?name, auth_email = ?email,
               auth_picture = in_picture data,
               auth_provider = orDefault (in_provider data) ''unknown'',
               auth_userId = newId\<rparr>"
    from f have "register newId data d =
        (user_id ?u, d\<lparr>users := users d @ [?u],
                        authenticationMethods := authenticationMethods d @ [?a]\<rparr>)"
      by (simp add: register_def Let_def)
    then show ?thesis
      by (intro exI [of _ ?u] exI [of _ ?a]) (simp add: orDefault_def)
  qed
  from existing created show ?thesis by blast
qed


theorem register_existing_or_created_witness:
  "integrity \<lparr>users = [\<lparr>user_id = ''u1'', user_name = ''Clark'', user_email = ''c@k.com'',
                          user_emailVerified = None, user_picture = None\<rparr>],
              authenticationMethods = [\<lparr>auth_uid = ''123'', auth_name = ''Clark'',
                          auth_email = ''c@k.com'', auth_picture = None,
                          auth_provider = ''google.com'', auth_userId = ''u1''\<rparr>]\<rparr>
   \<and> fst (register ''u2'' \<lparr>in_uid = ''123'', in_name = Some ''Bob'', in_email = None,
                     in_emailVerified = None, in_picture = None, in_provider = None\<rparr>
         \<lparr>users = [\<lparr>user_id = ''u1'', user_name = ''Clark'', user_email = ''c@k.com'',
                          user_emailVerified = None, user_picture = None\<rparr>],
              authenticationMethods = [\<lparr>auth_uid = ''123'', auth_name = ''Clark'',
                          auth_email = ''c@k.com'', auth_picture = None,
                          auth_provider = ''google.com'', auth_userId = ''u1''\<rparr>]\<rparr>) = ''u1''
   \<and> integrity \<lparr>users = [], authenticationMethods = []\<rparr>
   \<and> register ''u2'' \<lparr>in_uid = ''123'', in_name = Some ''Bob'', in_email = None,
                     in_emailVerified = None, in_picture = None, in_provider = None\<rparr>
         \<lparr>users = [], authenticationMethods = []\<rparr>
       = (''u2'', \<lparr>users = [\<lparr>user_id = ''u2'', user_name = ''Bob'', user_email = ''123@example.com'',
                          user_emailVerified = None, user_picture = None\<rparr>],
              authenticationMethods = [\<lparr>auth_uid = ''123'', auth_name = ''Bob'',
                          auth_email = ''123@example.com'', auth_picture = None,
                          auth_provider = ''unknown'', auth_userId = ''u2''\<rparr>]\<rparr>)"
proof -
  let ?u1 = "\<lparr>user_id = ''u1'', user_name = ''Clark'', user_email = ''c@k.com'',
                          user_emailVerified = None, user_picture = None\<rparr>"
  let ?a1 = "\<lparr>auth_uid = ''123'', auth_name = ''Clark'',
                          auth_email = ''c@k.com'', auth_picture = None,
                          auth_provider = ''google.com'', auth_userId = ''u1''\<rparr>"
  let ?d1 = "\<lparr>users = [?u1], authenticationMethods = [?a1]\<rparr>"
  let ?d0 = "\<lparr>users = [], authenticationMethods = []\<rparr>"
  let ?data = "\<lparr>in_uid = ''123'', in_name = Some ''Bob'', in_email = None,
                     in_emailVerified = None, in_picture = None, in_provider = None\<rparr>"
  have i1: "integrity ?d1" by (simp add: integrity_def)
  have i0: "integrity ?d0" by (simp add: integrity_def)
  have f1: "findUnique_authenticationMethod ?d1 (in_uid ?data) = Some ?a1"
    by (simp add: findUnique_authenticationMethod_def)
  have f0: "findUnique_authenticationMethod ?d0 (in_uid ?data) = None"
    by (simp add: findUnique_authenticationMethod_def)
  from register_existing_or_created [OF i1, of ?data "''u2''"] f1
  have r1: "fst (register ''u2'' ?data ?d1) = ''u1''" by simp
  from register_existing_or_created [OF i0, of ?data "''u2''"] f0
  obtain u a where
    "register ''u2'' ?data ?d0 = (user_id u, ?d0\<lparr>users := users ?d0 @ [u],
        authenticationMethods := authenticationMethods ?d0 @ [a]\<rparr>)"
    "user_id u = ''u2''" by blast
  then have r0: "fst (register ''u2'' ?data ?d0) = ''u2''" by simp
  have r0': "register ''u2'' ?data ?d0 = (''u2'', \<lparr>users = [\<lparr>user_id = ''u2'', user_name = ''Bob'', user_email = ''123@example.com'',
                          user_emailVerified = None, user_picture = None\<rparr>],
              authenticationMethods = [\<lparr>auth_uid = ''123'', auth_name = ''Bob'',
                          auth_email = ''123@example.com'', auth_picture = None,
                          auth_provider = ''unknown'', auth_userId = ''u2''\<rparr>]\<rparr>)"
    by (simp add: register_def findUnique_authenticationMethod_def orDefault_def Let_def)
  from i1 r1 i0 r0' show ?thesis by blast
qed

text \<open>
  Claim C7. Registration is idempotent in the uid: once a call with some uid has returned
  an id and a store, any further call with the same uid, whatever its other fields and
  whatever id the database would generate, returns that same id and leaves the store as it
  is: no user and no authentication method is added.
\<close>

theorem register_idempotent:
  assumes "in_uid data2 = in_uid data1"
      and "register newId1 data1 d = (i1, d1)"
  shows "register newId2 data2 d1 = (i1, d1)"
proof (cases "findUnique_authenticationMethod d (in_uid data1)")
  case (Some a)
  with assms(2) have "i1 = auth_userId a" "d1 = d" by (auto simp: register_def)
  with Some assms(1) show ?thesis by (simp add: register_def)
next
  case None
  let ?name = "orDefault (in_name data1) ''(No name)''"
  let ?email = "orDefault (in_email data1) (in_uid data1 @ ''@example.com'')"
  let ?a = "\<lparr>auth_uid = in_uid data1, auth_name = ?name, auth_email = ?email,
             auth_picture = in_picture data1,
             auth_provider = orDefault (in_provider data1) ''unknown'',
             auth_userId = newId1\<rparr>"
  from None assms(2) have i1: "i1 = newId1"
    and d1: "authenticationMethods d1 = authenticationMethods d @ [?a]"
    by (auto simp: register_def Let_def)
  from None have "findUnique_authenticationMethod d1 (in_uid data1) = Some ?a"
    unfolding findUnique_authenticationMethod_def d1
    by (simp add: find_append_None)
  with assms(1) i1 show ?thesis by (simp add: register_def)
qed


theorem register_idempotent_witness:
  "register ''u3'' \<lparr>in_uid = ''123'', in_name = Some ''Robert'', in_email = Some ''r@b.org'',
                     in_emailVerified = Some True, in_picture = None, in_provider = Some ''password''\<rparr>
     \<lparr>users = [\<lparr>user_id = ''u2'', user_name = ''Bob'', user_email = ''123@example.com'',
                          user_emailVerified = None, user_picture = None\<rparr>],
              authenticationMethods = [\<lparr>auth_uid = ''123'', auth_name = ''Bob'',
                          auth_email = ''123@example.com'', auth_picture = None,
                          auth_provider = ''unknown'', auth_userId = ''u2''\<rparr>]\<rparr>
   = (''u2'', \<lparr>users = [\<lparr>user_id = ''u2'', user_name = ''Bob'', user_email = ''123@example.com'',
                          user_emailVerified = None, user_picture = None\<rparr>],
              authenticationMethods = [\<lparr>auth_uid = ''123'', auth_name = ''Bob'',
                          auth_email = ''123@example.com'', auth_picture = None,
                          auth_provider = ''unknown'', auth_userId = ''u2''\<rparr>]\<rparr>)"
proof -
  let ?data1 = "\<lparr>in_uid = ''123'', in_name = Some ''Bob'', in_email = None,
                     in_emailVerified = None, in_picture = None, in_provider = None\<rparr>"
  let ?data2 = "\<lparr>in_uid = ''123'', in_name = Some ''Robert'', in_email = Some ''r@b.org'',
                     in_emailVerified = Some True, in_picture = None, in_provider = Some ''password''\<rparr>"
  let ?d0 = "\<lparr>users = [], authenticationMethods = []\<rparr>"
  let ?d1 = "\<lparr>users = [\<lparr>user_id = ''u2'', user_name = ''Bob'', user_email = ''123@example.com'',
                          user_emailVerified = None, user_picture = None\<rparr>],
              authenticationMethods = [\<lparr>auth_uid = ''123'', auth_name = ''Bob'',
                          auth_email = ''123@example.com'', auth_picture = None,
                          auth_provider = ''unknown'', auth_userId = ''u2''\<rparr>]\<rparr>"
  have uid: "in_uid ?data2 = in_uid ?data1" by simp
  have first: "register ''u2'' ?data1 ?d0 = (''u2'', ?d1)"
    by (simp add: register_def findUnique_authenticationMethod_def orDefault_def Let_def)
  from register_idempotent [OF uid first, of "''u3''"] show ?thesis .
qed
section \<open>Properties of the password reset email\<close>

lemma map_of_drop_key:
  "k' \<noteq> k \<Longrightarrow> map_of (filter (\<lambda>q. fst q \<noteq> k) ps) k' = map_of ps k'"
  by (induction ps) auto

lemma map_of_set_pair_same: "map_of (set_pair k v ps) k = Some v"
  by (induction ps) auto

lemma map_of_set_pair_other:
  "k' \<noteq> k \<Longrightarrow> map_of (set_pair k v ps) k' = map_of ps k'"
  by (induction ps) (auto simp: map_of_drop_key)

lemma searchParams_get_set_same:
  "searchParams_get (searchParams_set u k v) k = Some v"
  by (simp add: searchParams_get_def searchParams_set_def map_of_set_pair_same)

lemma searchParams_get_set_other:
  "k' \<noteq> k \<Longrightarrow> searchParams_get (searchParams_set u k v) k' = searchParams_get u k'"
  by (simp add: searchParams_get_def searchParams_set_def map_of_set_pair_other)

lemma sendResetPasswordEmail_try_sent_nothing:
  assumes "\<forall>link. generatePasswordResetLink env email = Inr link \<longrightarrow> link_oobCode env link = None"
  shows "snd (sendResetPasswordEmail_try env email) = []"
  using assms
  by (auto simp: sendResetPasswordEmail_try_def link_oobCode_def
           split: sum.splits option.splits if_splits)

lemma sendResetPasswordEmail_try_sent_one:
  assumes "generatePasswordResetLink env email = Inr link"
      and "link_oobCode env link = Some c"
      and "newURL env (appUrl env @ ''/auth/reset-password'') = Some u0"
  shows "snd (sendResetPasswordEmail_try env email) =
           [(email, searchParams_set (searchParams_set u0 ''oobCode'' c) ''email'' email)]"
  using assms
  by (auto simp: sendResetPasswordEmail_try_def link_oobCode_def Let_def
           split: sum.splits option.splits if_splits)

lemma emails_sendResetPasswordEmail:
  "emails (snd (sendResetPasswordEmail env email)) = snd (sendResetPasswordEmail_try env email)"
  by (cases "sendResetPasswordEmail_try env email")
     (auto simp: sendResetPasswordEmail_def split: sum.splits)

text \<open>
  Claim C10. \<open>sendResetPasswordEmail\<close> always returns normally, whatever the link
  generator, the URL constructor or the email template do. When link generation fails or the
  generated link carries no oobCode, the email template is not called. When a link with an
  oobCode is generated (and the application's own reset address is a URL), the template is
  called exactly once, for the given address, with a URL at the application's reset address
  whose query carries that oobCode and the email.
\<close>

theorem sendResetPasswordEmail_returns_and_sends:
  "fst (sendResetPasswordEmail env email) = Inr ()
   \<and> ((\<forall>link. generatePasswordResetLink env email = Inr link \<longrightarrow> link_oobCode env link = None)
        \<longrightarrow> emails (snd (sendResetPasswordEmail env email)) = [])
   \<and> (\<forall>link c u0. generatePasswordResetLink env email = Inr link
          \<and> link_oobCode env link = Some c
          \<and> newURL env (appUrl env @ ''/auth/reset-password'') = Some u0 \<longrightarrow>
        (\<exists>u. emails (snd (sendResetPasswordEmail env email)) = [(email, u)]
            \<and> url_href u = url_href u0
            \<and> searchParams_get u ''oobCode'' = Some c
            \<and> searchParams_get u ''email'' = Some email))"
proof (intro conjI allI impI)
  show "fst (sendResetPasswordEmail env email) = Inr ()"
    by (cases "sendResetPasswordEmail_try env email")
       (auto simp: sendResetPasswordEmail_def split: sum.splits)
next
  assume "\<forall>link. generatePasswordResetLink env email = Inr link \<longrightarrow> link_oobCode env link = None"
  then show "emails (snd (sendResetPasswordEmail env email)) = []"
    by (simp only: emails_sendResetPasswordEmail sendResetPasswordEmail_try_sent_nothing)
next
  fix link c u0
  assume a: "generatePasswordResetLink env email = Inr link
          \<and> link_oobCode env link = Some c
          \<and> newURL env (appUrl env @ ''/auth/reset-password'') = Some u0"
  let ?u = "searchParams_set (searchParams_set u0 ''oobCode'' c) ''email'' email"
  from a have "emails (snd (sendResetPasswordEmail env email)) = [(email, ?u)]"
    by (simp only: emails_sendResetPasswordEmail sendResetPasswordEmail_try_sent_one)
  moreover have "url_href ?u = url_href u0" by (simp add: searchParams_set_def)
  moreover have "searchParams_get ?u ''oobCode'' = Some c"
    by (simp add: searchParams_get_set_other searchParams_get_set_same)
  moreover have "searchParams_get ?u ''email'' = Some email"
    by (simp add: searchParams_get_set_same)
  ultimately show "\<exists>u. emails (snd (sendResetPasswordEmail env email)) = [(email, u)]
            \<and> url_href u = url_href u0
            \<and> searchParams_get u ''oobCode'' = Some c
            \<and> searchParams_get u ''email'' = Some email" by blast
qed

theorem sendResetPasswordEmail_returns_and_sends_witness:
  "fst (sendResetPasswordEmail test_env_link ''foo@example.com'') = Inr ()
   \<and> emails (snd (sendResetPasswordEmail test_env_rejected ''foo@example.com'')) = []
   \<and> (\<exists>u. emails (snd (sendResetPasswordEmail test_env_link ''foo@example.com''))
              = [(''foo@example.com'', u)]
          \<and> url_href u = ''http://127.0.0.1:3000/auth/reset-password''
          \<and> searchParams_get u ''oobCode'' = Some ''my-code''
          \<and> searchParams_get u ''email'' = Some ''foo@example.com'')"
proof -
  let ?link = "''https://firebase.app/auth?mode=resetPassword&oobCode=my-code''"
  let ?u0 = "\<lparr>url_href = ''http://127.0.0.1:3000/auth/reset-password'', url_searchParams = []\<rparr>"
  have rejected: "\<forall>link. generatePasswordResetLink test_env_rejected ''foo@example.com'' = Inr link
                   \<longrightarrow> link_oobCode test_env_rejected link = None"
    by (simp add: test_env_rejected_def)
  have gen: "generatePasswordResetLink test_env_link ''foo@example.com'' = Inr ?link"
    by (simp add: test_env_link_def)
  have code: "link_oobCode test_env_link ?link = Some ''my-code''"
    by (simp add: test_env_link_def link_oobCode_def test_newURL_def searchParams_get_def)
  have app: "newURL test_env_link (appUrl test_env_link @ ''/auth/reset-password'') = Some ?u0"
    by (simp add: test_env_link_def test_newURL_def)
  from sendResetPasswordEmail_returns_and_sends [of test_env_link "''foo@example.com''"]
  have 1: "fst (sendResetPasswordEmail test_env_link ''foo@example.com'') = Inr ()"
    and 3: "\<exists>u. emails (snd (sendResetPasswordEmail test_env_link ''foo@example.com''))
              = [(''foo@example.com'', u)]
          \<and> url_href u = url_href ?u0
          \<and> searchParams_get u ''oobCode'' = Some ''my-code''
          \<and> searchParams_get u ''email'' = Some ''foo@example.com''"
    using gen code app by blast+
  from sendResetPasswordEmail_returns_and_sends [of test_env_rejected "''foo@example.com''"] rejected
  have 2: "emails (snd (sendResetPasswordEmail test_env_rejected ''foo@example.com'')) = []"
    by blast
  from 1 2 3 show ?thesis by simp
qed

section \<open>Properties of the session cookie\<close>

lemma destroySession_throws:
  "destroySession request = Inl (ThrownResponse (Redirect ''/'' [DestroySessionCookie]))"
  by (simp add: destroySession_def)

text \<open>
  Claim C9, as amended. \<open>getSessionUserId\<close> returns a user id exactly when the session
  holds a non-empty jwt, uid and userId, the jwt verifies, and the verified token's uid is the
  session's uid; the id returned is the session's userId. It returns \<open>null\<close> when one of
  the three is missing or empty. When all three are present and the jwt does not verify or the
  uids differ, it does not return: it throws the redirect to \<open>/\<close> that destroys the
  session cookie.
\<close>

theorem getSessionUserId_returns_or_redirects:
  "(\<forall>v. getSessionUserId verifySessionCookie request = Inr (Some v) \<longleftrightarrow>
        (\<exists>jwt uid token. session_jwt (getSession request) = Some jwt \<and> jwt \<noteq> []
           \<and> session_uid (getSession request) = Some uid \<and> uid \<noteq> []
           \<and> session_userId (getSession request) = Some v \<and> v \<noteq> []
           \<and> verifySessionCookie jwt = Inr token \<and> token_uid token = uid))
   \<and> (falsy (session_jwt (getSession request)) \<or> falsy (session_uid (getSession request))
        \<or> falsy (session_userId (getSession request))
        \<longrightarrow> getSessionUserId verifySessionCookie request = Inr None)
   \<and> (\<forall>jwt uid userId. session_jwt (getSession request) = Some jwt \<and> jwt \<noteq> []
           \<and> session_uid (getSession request) = Some uid \<and> uid \<noteq> []
           \<and> session_userId (getSession request) = Some userId \<and> userId \<noteq> []
           \<and> (\<forall>token. verifySessionCookie jwt = Inr token \<longrightarrow> token_uid token \<noteq> uid)
        \<longrightarrow> getSessionUserId verifySessionCookie request
              = Inl (ThrownResponse (Redirect ''/'' [DestroySessionCookie])))"
  by (auto simp: getSessionUserId_def getSessionUserId_try_def destroySession_throws falsy_def Let_def
           split: option.splits sum.splits if_splits)

theorem getSessionUserId_returns_or_redirects_witness:
  "getSessionUserId test_verify_ok test_request = Inr (Some ''user-1'')
   \<and> getSessionUserId test_verify_ok
        (test_request\<lparr>request_session := \<lparr>session_jwt = None, session_uid = Some ''uid-1'',
                                           session_userId = Some ''user-1''\<rparr>\<rparr>) = Inr None
   \<and> getSessionUserId test_verify_revoked test_request
        = Inl (ThrownResponse (Redirect ''/'' [DestroySessionCookie]))"
proof -
  have ok: "\<exists>jwt uid token. session_jwt (getSession test_request) = Some jwt \<and> jwt \<noteq> []
           \<and> session_uid (getSession test_request) = Some uid \<and> uid \<noteq> []
           \<and> session_userId (getSession test_request) = Some ''user-1'' \<and> ''user-1'' \<noteq> []
           \<and> test_verify_ok jwt = Inr token \<and> token_uid token = uid"
    by (simp add: getSession_def test_request_def test_verify_ok_def)
  from getSessionUserId_returns_or_redirects [of test_verify_ok test_request] ok
  have 1: "getSessionUserId test_verify_ok test_request = Inr (Some ''user-1'')" by blast
  let ?r = "test_request\<lparr>request_session := \<lparr>session_jwt = None, session_uid = Some ''uid-1'',
                                           session_userId = Some ''user-1''\<rparr>\<rparr>"
  have missing: "falsy (session_jwt (getSession ?r))"
    by (simp add: getSession_def falsy_def)
  from getSessionUserId_returns_or_redirects [of test_verify_ok ?r] missing
  have 2: "getSessionUserId test_verify_ok ?r = Inr None" by blast
  have revoked: "session_jwt (getSession test_request) = Some ''jwt-1'' \<and> ''jwt-1'' \<noteq> []
           \<and> session_uid (getSession test_request) = Some ''uid-1'' \<and> ''uid-1'' \<noteq> []
           \<and> session_userId (getSession test_request) = Some ''user-1'' \<and> ''user-1'' \<noteq> []
           \<and> (\<forall>token. test_verify_revoked ''jwt-1'' = Inr token \<longrightarrow> token_uid token \<noteq> ''uid-1'')"
    by (simp add: getSession_def test_request_def test_verify_revoked_def)
  from getSessionUserId_returns_or_redirects [of test_verify_revoked test_request] revoked
  have 3: "getSessionUserId test_verify_revoked test_request
        = Inl (ThrownResponse (Redirect ''/'' [DestroySessionCookie]))" by blast
  from 1 2 3 show ?thesis by simp
qed

text \<open>
  Claim C9 as stated fails: with all three keys present, a token verified for another uid, or
  a rejected cookie, does not make \<open>getSessionUserId\<close> return \<open>null\<close>.
\<close>

theorem getSessionUserId_null_counterexample:
  "getSessionUserId
     (\<lambda>jwt. Inr \<lparr>token_uid = ''uid-2''\<rparr>)
     \<lparr>request_session = \<lparr>session_jwt = Some ''jwt-1'', session_uid = Some ''uid-1'',
                          session_userId = Some ''user-1''\<rparr>,
      request_pathname = ''/speaker'', request_formData = Map.empty\<rparr>
   \<noteq> Inr None
   \<and> getSessionUserId
     (\<lambda>jwt. Inl (ThrownError ''session cookie revoked''))
     \<lparr>request_session = \<lparr>session_jwt = Some ''jwt-1'', session_uid = Some ''uid-1'',
                          session_userId = Some ''user-1''\<rparr>,
      request_pathname = ''/speaker'', request_formData = Map.empty\<rparr>
   \<noteq> Inr None"
  by (simp add: getSessionUserId_def getSessionUserId_try_def destroySession_def getSession_def
                falsy_def)

section \<open>Properties of the integrations action\<close>







section \<open>Properties of speaker proposals\<close>

lemma find_map_invariant:
  assumes "\<And>x. P (f x) = P x"
  shows "find P (map f xs) = map_option f (find P xs)"
  using assms by (induction xs) auto

lemma findProposal_None:
  assumes "\<forall>p \<in> set (proposals d). proposal_id p = proposalId \<longrightarrow> speakerId \<notin> set (proposal_speakers p)"
  shows "findProposal d speakerId proposalId = None"
  using assms by (auto simp: findProposal_def find_None_iff)

lemma findProposal_id:
  "findProposal d speakerId proposalId = Some p \<Longrightarrow> proposal_id p = proposalId"
  by (auto simp: findProposal_def dest: find_Some_mem)

text \<open>
  Claim C1. For a proposal of the calling speaker, \<open>confirm\<close> with \<open>CONFIRMED\<close> or
  \<open>DECLINED\<close> records that value as the proposal's confirmation status when the proposal
  is accepted and its result published, leaving its other fields as they were; for a
  proposal that is not accepted or not published it changes nothing.
\<close>

theorem confirm_only_accepted_published:
  assumes "findProposal d speakerId proposalId = Some p"
  shows "(proposal_deliberationStatus p = ACCEPTED \<and> proposal_publicationStatus p = PUBLISHED \<longrightarrow>
            (\<exists>d'. SpeakerProposal_confirm d speakerId proposalId v = (Inr (), d')
               \<and> findProposal d' speakerId proposalId
                   = Some (p\<lparr>proposal_confirmationStatus := Some v\<rparr>)))
       \<and> (\<not> (proposal_deliberationStatus p = ACCEPTED \<and> proposal_publicationStatus p = PUBLISHED) \<longrightarrow>
            SpeakerProposal_confirm d speakerId proposalId v = (Inr (), d))"
proof (intro conjI impI)
  assume ok: "proposal_deliberationStatus p = ACCEPTED \<and> proposal_publicationStatus p = PUBLISHED"
  let ?f = "\<lambda>q. if proposal_id q = proposalId
                 then q\<lparr>proposal_confirmationStatus := Some v\<rparr> else q"
  let ?d' = "d\<lparr>proposals := map ?f (proposals d)\<rparr>"
  from assms ok have r: "SpeakerProposal_confirm d speakerId proposalId v = (Inr (), ?d')"
    by (simp add: SpeakerProposal_confirm_def)
  have "findProposal ?d' speakerId proposalId = map_option ?f (findProposal d speakerId proposalId)"
    unfolding findProposal_def by (simp add: find_map_invariant)
  with assms have "findProposal ?d' speakerId proposalId
                     = Some (p\<lparr>proposal_confirmationStatus := Some v\<rparr>)"
    by (simp add: findProposal_id)
  with r show "\<exists>d'. SpeakerProposal_confirm d speakerId proposalId v = (Inr (), d')
               \<and> findProposal d' speakerId proposalId
                   = Some (p\<lparr>proposal_confirmationStatus := Some v\<rparr>)"
    by blast
next
  assume "\<not> (proposal_deliberationStatus p = ACCEPTED \<and> proposal_publicationStatus p = PUBLISHED)"
  with assms show "SpeakerProposal_confirm d speakerId proposalId v = (Inr (), d)"
    by (auto simp: SpeakerProposal_confirm_def)
qed

theorem confirm_only_accepted_published_witness:
  "(\<exists>d'. SpeakerProposal_confirm test_cfp_db ''speaker-1'' ''p1'' DECLINED = (Inr (), d')
        \<and> findProposal d' ''speaker-1'' ''p1''
            = Some (test_proposal\<lparr>proposal_confirmationStatus := Some DECLINED\<rparr>))
   \<and> SpeakerProposal_confirm
        (test_cfp_db\<lparr>proposals := [test_proposal\<lparr>proposal_publicationStatus := NOT_PUBLISHED\<rparr>]\<rparr>)
        ''speaker-1'' ''p1'' CONFIRMED
      = (Inr (),
         test_cfp_db\<lparr>proposals := [test_proposal\<lparr>proposal_publicationStatus := NOT_PUBLISHED\<rparr>]\<rparr>)"
proof -
  let ?q = "test_proposal\<lparr>proposal_publicationStatus := NOT_PUBLISHED\<rparr>"
  let ?d = "test_cfp_db\<lparr>proposals := [?q]\<rparr>"
  have f1: "findProposal test_cfp_db ''speaker-1'' ''p1'' = Some test_proposal"
    by (simp add: findProposal_def test_cfp_db_def test_proposal_def)
  have a1: "proposal_deliberationStatus test_proposal = ACCEPTED
            \<and> proposal_publicationStatus test_proposal = PUBLISHED"
    by (simp add: test_proposal_def)
  have f2: "findProposal ?d ''speaker-1'' ''p1'' = Some ?q"
    by (simp add: findProposal_def test_proposal_def)
  have a2: "\<not> (proposal_deliberationStatus ?q = ACCEPTED \<and> proposal_publicationStatus ?q = PUBLISHED)"
    by simp
  from confirm_only_accepted_published [OF f1, of DECLINED] a1
  have 1: "\<exists>d'. SpeakerProposal_confirm test_cfp_db ''speaker-1'' ''p1'' DECLINED = (Inr (), d')
        \<and> findProposal d' ''speaker-1'' ''p1''
            = Some (test_proposal\<lparr>proposal_confirmationStatus := Some DECLINED\<rparr>)"
    by blast
  from confirm_only_accepted_published [OF f2, of CONFIRMED] a2
  have 2: "SpeakerProposal_confirm ?d ''speaker-1'' ''p1'' CONFIRMED = (Inr (), ?d)"
    by blast
  from 1 2 show ?thesis by blast
qed

text \<open>
  Claim C4. When no proposal with the given id has the caller among its speakers (the
  proposal does not exist or is not the caller's), \<open>get\<close>, \<open>update\<close>,
  \<open>removeCoSpeaker\<close> and \<open>confirm\<close> throw \<open>ProposalNotFoundError\<close>, and the store is
  left as it was.
\<close>

theorem not_found_changes_nothing:
  assumes "\<forall>p \<in> set (proposals d). proposal_id p = proposalId \<longrightarrow> speakerId \<notin> set (proposal_speakers p)"
  shows "SpeakerProposal_get d speakerId proposalId = Inl ProposalNotFoundError
       \<and> SpeakerProposal_update d speakerId proposalId data = (Inl ProposalNotFoundError, d)
       \<and> SpeakerProposal_removeCoSpeaker d speakerId proposalId coSpeakerId
           = (Inl ProposalNotFoundError, d)
       \<and> SpeakerProposal_confirm d speakerId proposalId v = (Inl ProposalNotFoundError, d)"
  using findProposal_None [OF assms]
  by (simp add: SpeakerProposal_get_def SpeakerProposal_update_def
        SpeakerProposal_removeCoSpeaker_def SpeakerProposal_confirm_def)

theorem not_found_changes_nothing_witness:
  "SpeakerProposal_get test_cfp_db ''speaker-2'' ''p1'' = Inl ProposalNotFoundError
   \<and> SpeakerProposal_update test_cfp_db ''speaker-2'' ''p1'' test_proposalData
       = (Inl ProposalNotFoundError, test_cfp_db)
   \<and> SpeakerProposal_removeCoSpeaker test_cfp_db ''speaker-1'' ''XXX'' ''speaker-2''
       = (Inl ProposalNotFoundError, test_cfp_db)
   \<and> SpeakerProposal_confirm test_cfp_db ''speaker-1'' ''XXX'' CONFIRMED
       = (Inl ProposalNotFoundError, test_cfp_db)"
proof -
  have other: "\<forall>p \<in> set (proposals test_cfp_db).
                 proposal_id p = ''p1'' \<longrightarrow> ''speaker-2'' \<notin> set (proposal_speakers p)"
    by (simp add: test_cfp_db_def test_proposal_def)
  have missing: "\<forall>p \<in> set (proposals test_cfp_db).
                 proposal_id p = ''XXX'' \<longrightarrow> ''speaker-1'' \<notin> set (proposal_speakers p)"
    by (simp add: test_cfp_db_def test_proposal_def)
  from not_found_changes_nothing [OF other, of test_proposalData "''speaker-2''" CONFIRMED]
       not_found_changes_nothing [OF missing, of test_proposalData "''speaker-2''" CONFIRMED]
  show ?thesis by blast
qed

text \<open>
  Claim C6. For a proposal of the calling speaker, \<open>update\<close> throws \<open>CfpNotOpenError\<close>
  and leaves the store (the proposal and its talk with it) as it was when the call for papers
  of the event is not open; when it is open, the proposal read back holds the given title,
  abstract, level, languages, references, formats and categories.
\<close>

theorem update_requires_open_cfp:
  assumes "findProposal d speakerId proposalId = Some p"
  shows "(\<not> isCfpOpen d (proposal_eventId p) \<longrightarrow>
            SpeakerProposal_update d speakerId proposalId data = (Inl CfpNotOpenError, d))
       \<and> (isCfpOpen d (proposal_eventId p) \<longrightarrow>
            (\<exists>d' p'. SpeakerProposal_update d speakerId proposalId data = (Inr (), d')
               \<and> findProposal d' speakerId proposalId = Some p'
               \<and> proposal_title p' = data_title data
               \<and> proposal_abstract p' = data_abstract data
               \<and> proposal_level p' = data_level data
               \<and> proposal_languages p' = data_languages data
               \<and> proposal_references p' = data_references data
               \<and> proposal_formats p' = data_formats data
               \<and> proposal_categories p' = data_categories data))"
proof (intro conjI impI)
  assume "\<not> isCfpOpen d (proposal_eventId p)"
  with assms show "SpeakerProposal_update d speakerId proposalId data = (Inl CfpNotOpenError, d)"
    by (simp add: SpeakerProposal_update_def)
next
  assume op: "isCfpOpen d (proposal_eventId p)"
  let ?f = "\<lambda>q. if proposal_id q = proposalId then write_proposal data q else q"
  let ?g = "\<lambda>t. if talk_id t = proposal_talkId p then write_talk data t else t"
  let ?d' = "d\<lparr>proposals := map ?f (proposals d), talks := map ?g (talks d)\<rparr>"
  from assms op have r: "SpeakerProposal_update d speakerId proposalId data = (Inr (), ?d')"
    by (simp add: SpeakerProposal_update_def)
  have "findProposal ?d' speakerId proposalId = map_option ?f (findProposal d speakerId proposalId)"
    unfolding findProposal_def by (simp add: find_map_invariant write_proposal_def)
  with assms have f: "findProposal ?d' speakerId proposalId = Some (write_proposal data p)"
    by (simp add: findProposal_id)
  show "\<exists>d' p'. SpeakerProposal_update d speakerId proposalId data = (Inr (), d')
               \<and> findProposal d' speakerId proposalId = Some p'
               \<and> proposal_title p' = data_title data
               \<and> proposal_abstract p' = data_abstract data
               \<and> proposal_level p' = data_level data
               \<and> proposal_languages p' = data_languages data
               \<and> proposal_references p' = data_references data
               \<and> proposal_formats p' = data_formats data
               \<and> proposal_categories p' = data_categories data"
    by (rule exI [of _ ?d'], rule exI [of _ "write_proposal data p"])
       (simp add: r f, simp add: write_proposal_def)
qed

theorem update_requires_open_cfp_witness:
  "SpeakerProposal_update (test_cfp_db\<lparr>events := [\<lparr>event_id = ''e1'', event_isCfpOpen = False\<rparr>]\<rparr>)
       ''speaker-1'' ''p1'' test_proposalData
     = (Inl CfpNotOpenError,
        test_cfp_db\<lparr>events := [\<lparr>event_id = ''e1'', event_isCfpOpen = False\<rparr>]\<rparr>)
   \<and> (\<exists>d' p'. SpeakerProposal_update test_cfp_db ''speaker-1'' ''p1'' test_proposalData = (Inr (), d')
          \<and> findProposal d' ''speaker-1'' ''p1'' = Some p'
          \<and> proposal_title p' = ''Title changed''
          \<and> proposal_abstract p' = ''Abstract changes''
          \<and> proposal_level p' = Some INTERMEDIATE
          \<and> proposal_languages p' = [''be'']
          \<and> proposal_references p' = ''Reference changed''
          \<and> proposal_formats p' = [''f1'']
          \<and> proposal_categories p' = [''c1''])"
proof -
  let ?closed = "test_cfp_db\<lparr>events := [\<lparr>event_id = ''e1'', event_isCfpOpen = False\<rparr>]\<rparr>"
  have f1: "findProposal ?closed ''speaker-1'' ''p1'' = Some test_proposal"
    by (simp add: findProposal_def test_cfp_db_def test_proposal_def)
  have c1: "\<not> isCfpOpen ?closed (proposal_eventId test_proposal)"
    by (simp add: isCfpOpen_def test_proposal_def)
  have f2: "findProposal test_cfp_db ''speaker-1'' ''p1'' = Some test_proposal"
    by (simp add: findProposal_def test_cfp_db_def test_proposal_def)
  have c2: "isCfpOpen test_cfp_db (proposal_eventId test_proposal)"
    by (simp add: isCfpOpen_def test_cfp_db_def test_proposal_def)
  from update_requires_open_cfp [OF f1, of test_proposalData] c1
  have 1: "SpeakerProposal_update ?closed ''speaker-1'' ''p1'' test_proposalData
             = (Inl CfpNotOpenError, ?closed)"
    by blast
  from update_requires_open_cfp [OF f2, of test_proposalData] c2
  have 2: "\<exists>d' p'. SpeakerProposal_update test_cfp_db ''speaker-1'' ''p1'' test_proposalData = (Inr (), d')
          \<and> findProposal d' ''speaker-1'' ''p1'' = Some p'
          \<and> proposal_title p' = data_title test_proposalData
          \<and> proposal_abstract p' = data_abstract test_proposalData
          \<and> proposal_level p' = data_level test_proposalData
          \<and> proposal_languages p' = data_languages test_proposalData
          \<and> proposal_references p' = data_references test_proposalData
          \<and> proposal_formats p' = data_formats test_proposalData
          \<and> proposal_categories p' = data_categories test_proposalData"
    by blast
  from 1 2 show ?thesis by (simp add: test_proposalData_def)
qed

section \<open>Properties of team membership\<close>

text \<open>
  Claim C5. A caller who is not an owner of the team is refused by \<open>list\<close>, \<open>remove\<close>
  and \<open>changeRole\<close>; a caller who targets themselves is refused by \<open>remove\<close> and
  \<open>changeRole\<close>; a caller who owns the team or does not belong to it is refused by
  \<open>leave\<close>. Each refusal is a \<open>ForbiddenOperationError\<close> and leaves the memberships as
  they were.
\<close>

theorem team_forbidden_changes_nothing:
  "(roleOf ms userId team \<noteq> Some OWNER \<longrightarrow>
      TeamMembers_list ms userId team roleFilter = Inl ForbiddenOperationError
    \<and> TeamMembers_remove ms userId team memberId = (Inl ForbiddenOperationError, ms)
    \<and> TeamMembers_changeRole ms userId team memberId role = (Inl ForbiddenOperationError, ms))
   \<and> TeamMembers_remove ms userId team userId = (Inl ForbiddenOperationError, ms)
   \<and> TeamMembers_changeRole ms userId team userId role = (Inl ForbiddenOperationError, ms)
   \<and> (roleOf ms userId team = Some OWNER \<or> roleOf ms userId team = None \<longrightarrow>
        TeamMembers_leave ms userId team = (Inl ForbiddenOperationError, ms))"
  by (auto simp: TeamMembers_list_def TeamMembers_remove_def TeamMembers_changeRole_def
        TeamMembers_leave_def)

theorem team_forbidden_changes_nothing_witness:
  "TeamMembers_list test_team ''2'' ''my-team'' None = Inl ForbiddenOperationError
   \<and> TeamMembers_remove test_team ''2'' ''my-team'' ''1'' = (Inl ForbiddenOperationError, test_team)
   \<and> TeamMembers_changeRole test_team ''2'' ''my-team'' ''1'' REVIEWER
       = (Inl ForbiddenOperationError, test_team)
   \<and> TeamMembers_remove test_team ''1'' ''my-team'' ''1'' = (Inl ForbiddenOperationError, test_team)
   \<and> TeamMembers_changeRole test_team ''1'' ''my-team'' ''1'' REVIEWER
       = (Inl ForbiddenOperationError, test_team)
   \<and> TeamMembers_leave test_team ''1'' ''my-team'' = (Inl ForbiddenOperationError, test_team)
   \<and> TeamMembers_leave test_team ''4'' ''my-team'' = (Inl ForbiddenOperationError, test_team)"
proof -
  have member: "roleOf test_team ''2'' ''my-team'' \<noteq> Some OWNER"
    by (simp add: roleOf_def test_team_def isMember_def)
  have owner: "roleOf test_team ''1'' ''my-team'' = Some OWNER \<or> roleOf test_team ''1'' ''my-team'' = None"
    by (simp add: roleOf_def test_team_def isMember_def)
  have stranger: "roleOf test_team ''4'' ''my-team'' = Some OWNER \<or> roleOf test_team ''4'' ''my-team'' = None"
    by (simp add: roleOf_def test_team_def isMember_def)
  from team_forbidden_changes_nothing [of test_team "''2''" "''my-team''" None "''1''" REVIEWER] member
  have 1: "TeamMembers_list test_team ''2'' ''my-team'' None = Inl ForbiddenOperationError
     \<and> TeamMembers_remove test_team ''2'' ''my-team'' ''1'' = (Inl ForbiddenOperationError, test_team)
     \<and> TeamMembers_changeRole test_team ''2'' ''my-team'' ''1'' REVIEWER
         = (Inl ForbiddenOperationError, test_team)"
    by blast
  from team_forbidden_changes_nothing [of test_team "''1''" "''my-team''" None "''1''" REVIEWER] owner
  have 2: "TeamMembers_remove test_team ''1'' ''my-team'' ''1'' = (Inl ForbiddenOperationError, test_team)
     \<and> TeamMembers_changeRole test_team ''1'' ''my-team'' ''1'' REVIEWER
         = (Inl ForbiddenOperationError, test_team)
     \<and> TeamMembers_leave test_team ''1'' ''my-team'' = (Inl ForbiddenOperationError, test_team)"
    by blast
  from team_forbidden_changes_nothing [of test_team "''4''" "''my-team''" None "''1''" REVIEWER] stranger
  have 3: "TeamMembers_leave test_team ''4'' ''my-team'' = (Inl ForbiddenOperationError, test_team)"
    by blast
  from 1 2 3 show ?thesis by blast
qed

end
